theory Spec2Isabelle
  imports Complex_Main
begin

section \<open>The persisted data (db/schema.sql)\<close>

text \<open>
  Currency columns are \<^verbatim>\<open>DECIMAL(p, 2)\<close>: a stored value is held as its number of cents,
  an integer. A nullable column is an \<open>option\<close>.
  A table is the list of its rows in the order in which the storage engine scans them;
  a statement without \<^verbatim>\<open>ORDER BY\<close> sees the rows in that order, whatever it is.
  Columns that none of the modelled statements reads or writes (email, phone, the loan
  terms, the \<^verbatim>\<open>updated_at\<close> stamps) are left out of the rows. String comparison is
  equality of the character lists.
\<close>

type_synonym cents = int

text \<open>
  An amount that a caller passes is a JavaScript number, not a column value. It is held
  as the rational number of cents it denotes, which need not be whole: \<^verbatim>\<open>100.005\<close> is
  \<open>20001 / 2\<close> cents. The server computes \<^verbatim>\<open>balance - ?\<close> and \<^verbatim>\<open>paid_amount + ?\<close> with
  such a parameter in doubles; here the arithmetic is that of the rationals. A value
  assigned to a \<^verbatim>\<open>DECIMAL(p, 2)\<close> column is rounded to whole cents, a half away from zero
  (a rounding is a note, not an error, also in strict mode).
\<close>

type_synonym amount = rat

definition round_to_cents :: "amount \<Rightarrow> cents" where
  "round_to_cents q = (if 0 \<le> q then \<lfloor>q + 1 / 2\<rfloor> else - \<lfloor>- q + 1 / 2\<rfloor>)"

datatype customer_status = ACTIVE | CLOSED | DEFAULT

datatype payment_status = PENDING | SUCCESS | FAILED | REVERSED

datatype payment_method = UPI | CARD | NET_BANKING | CHEQUE

datatype schedule_status = SCHEDULE_PENDING | PAID | OVERDUE

record customer =
  c_id :: nat
  c_account_number :: string
  c_customer_name :: string
  c_emi_due :: cents
  c_outstanding_balance :: "cents option"
  c_status :: customer_status
  c_created_at :: nat

record payment =
  p_id :: nat
  p_payment_reference_id :: string
  p_customer_id :: nat
  p_account_number :: string
  p_payment_date :: nat
  p_payment_amount :: cents
  p_status :: payment_status
  p_payment_method :: "payment_method option"
  p_transaction_id :: "string option"
  p_remarks :: "string option"

record schedule_entry =
  s_id :: nat
  s_customer_id :: nat
  s_due_date :: nat
  s_due_amount :: cents
  s_paid_amount :: "cents option"
  s_status :: schedule_status

record database =
  customers :: "customer list"
  payments :: "payment list"
  payment_schedule :: "schedule_entry list"

text \<open>
  The largest magnitude of a \<^verbatim>\<open>DECIMAL(p, 2)\<close> column, in cents: \<open>p\<close> digits of nines.
  \<^verbatim>\<open>payment_amount\<close> and \<^verbatim>\<open>paid_amount\<close> have \<open>p = 12\<close>, \<^verbatim>\<open>outstanding_balance\<close> has
  \<open>p = 15\<close>. The server runs in its default strict mode, where a value outside the
  column's range or a string longer than the column fails the statement.
\<close>

definition decimal_fits :: "nat \<Rightarrow> cents \<Rightarrow> bool" where
  "decimal_fits p v = (\<bar>v\<bar> < 10 ^ p)"

datatype sql_step =
  GetConnection | BeginTransaction | InsertPayment | UpdateCustomer | UpdateSchedule
  | Commit | Rollback

datatype sql_error =
  ConnectionLost sql_step
  | NoReferencedRow
  | DuplicateEntry
  | DataTooLong
  | OutOfRange
  | SyntaxError

section \<open>The three statements of a posting (models/Payment.js, lines 26-60)\<close>

text \<open>
  \<^verbatim>\<open>INSERT INTO payments (...) VALUES (?, ?, ?, ?, ?, 'SUCCESS', ?, ?, ?)\<close>.
  The checks are those of the table: the column widths, the range of the amount (which
  the caller of this function has rounded to the column), the unique index on
  \<^verbatim>\<open>payment_reference_id\<close> and the foreign key to \<^verbatim>\<open>customers(id)\<close>. The new row goes
  to the end of the table.
\<close>

definition fits_opt :: "nat \<Rightarrow> string option \<Rightarrow> bool" where
  "fits_opt n v = (case v of None \<Rightarrow> True | Some s \<Rightarrow> length s \<le> n)"

definition insert_payment :: "payment \<Rightarrow> database \<Rightarrow> sql_error + database" where
  "insert_payment row d =
     (if length (p_payment_reference_id row) > 100 \<or> length (p_account_number row) > 50
         \<or> \<not> fits_opt 100 (p_transaction_id row) \<or> \<not> fits_opt 500 (p_remarks row)
      then Inl DataTooLong
      else if \<not> decimal_fits 12 (p_payment_amount row) then Inl OutOfRange
      else if p_payment_reference_id row \<in> set (map p_payment_reference_id (payments d))
      then Inl DuplicateEntry
      else if p_customer_id row \<notin> set (map c_id (customers d)) then Inl NoReferencedRow
      else Inr (d\<lparr>payments := payments d @ [row]\<rparr>))"

text \<open>
  \<^verbatim>\<open>UPDATE customers SET outstanding_balance = outstanding_balance - ? WHERE id = ?\<close>.
  A \<^verbatim>\<open>NULL\<close> balance stays \<^verbatim>\<open>NULL\<close>; a row with another id is not touched; no row
  with that id is no error. The difference is rounded into the column.
\<close>

definition decrement_balance :: "amount \<Rightarrow> nat \<Rightarrow> customer \<Rightarrow> customer" where
  "decrement_balance amount cid c =
     (if c_id c = cid
      then c\<lparr>c_outstanding_balance :=
               map_option (\<lambda>b. round_to_cents (of_int b - amount)) (c_outstanding_balance c)\<rparr>
      else c)"

definition balance_fits :: "customer \<Rightarrow> bool" where
  "balance_fits c = (case c_outstanding_balance c of None \<Rightarrow> True | Some b \<Rightarrow> decimal_fits 15 b)"

definition update_customer :: "amount \<Rightarrow> nat \<Rightarrow> database \<Rightarrow> sql_error + database" where
  "update_customer amount cid d =
     (let cs = map (decrement_balance amount cid) (customers d)
      in if list_all balance_fits (filter (\<lambda>c. c_id c = cid) cs)
         then Inr (d\<lparr>customers := cs\<rparr>)
         else Inl OutOfRange)"

text \<open>
  \<^verbatim>\<open>UPDATE payment_schedule SET paid_amount = paid_amount + ?, status = 'PAID'
  WHERE customer_id = ? AND status = 'PENDING' LIMIT 1\<close>: the first row, in scan order,
  that satisfies the condition; none is no error.
\<close>

definition schedule_matches :: "nat \<Rightarrow> schedule_entry \<Rightarrow> bool" where
  "schedule_matches cid s = (s_customer_id s = cid \<and> s_status s = SCHEDULE_PENDING)"

definition mark_paid :: "amount \<Rightarrow> schedule_entry \<Rightarrow> schedule_entry" where
  "mark_paid amount s =
     s\<lparr>s_paid_amount := map_option (\<lambda>p. round_to_cents (of_int p + amount)) (s_paid_amount s),
       s_status := PAID\<rparr>"

fun update_first :: "('a \<Rightarrow> bool) \<Rightarrow> ('a \<Rightarrow> 'a) \<Rightarrow> 'a list \<Rightarrow> 'a list" where
  "update_first P f [] = []"
| "update_first P f (x # xs) = (if P x then f x # xs else x # update_first P f xs)"

definition paid_fits :: "schedule_entry \<Rightarrow> bool" where
  "paid_fits s = (case s_paid_amount s of None \<Rightarrow> True | Some p \<Rightarrow> decimal_fits 12 p)"

definition update_schedule :: "amount \<Rightarrow> nat \<Rightarrow> database \<Rightarrow> sql_error + database" where
  "update_schedule amount cid d =
     (case find (schedule_matches cid) (payment_schedule d) of
        None \<Rightarrow> Inr d
      | Some s \<Rightarrow>
          if paid_fits (mark_paid amount s)
          then Inr (d\<lparr>payment_schedule :=
                        update_first (schedule_matches cid) (mark_paid amount) (payment_schedule d)\<rparr>)
          else Inl OutOfRange)"

section \<open>A pooled connection and its transaction\<close>

text \<open>
  \<open>visible\<close> is what every other connection reads: the committed tables. Inside a
  transaction the statements work on \<open>pending\<close>; \<^verbatim>\<open>commit\<close> publishes it, \<^verbatim>\<open>rollback\<close>
  drops it. The \<^verbatim>\<open>AUTO_INCREMENT\<close> counter of \<^verbatim>\<open>payments\<close> is not transactional: an id
  handed out stays used after a rollback. A statement that fails leaves the tables it
  ran on as they were.
\<close>

record connection =
  visible :: database
  pending :: "database option"
  auto_increment :: nat

definition beginTransaction :: "connection \<Rightarrow> connection" where
  "beginTransaction c = c\<lparr>pending := Some (visible c)\<rparr>"

definition execute :: "(database \<Rightarrow> sql_error + database) \<Rightarrow> connection \<Rightarrow> (sql_error + unit) \<times> connection" where
  "execute stmt c =
     (case pending c of
        Some d \<Rightarrow> (case stmt d of
                     Inl e \<Rightarrow> (Inl e, c)
                   | Inr d' \<Rightarrow> (Inr (), c\<lparr>pending := Some d'\<rparr>))
      | None \<Rightarrow> (case stmt (visible c) of
                   Inl e \<Rightarrow> (Inl e, c)
                 | Inr d' \<Rightarrow> (Inr (), c\<lparr>visible := d'\<rparr>)))"

definition commit :: "connection \<Rightarrow> connection" where
  "commit c = (case pending c of None \<Rightarrow> c | Some d \<Rightarrow> c\<lparr>visible := d, pending := None\<rparr>)"

definition rollback :: "connection \<Rightarrow> connection" where
  "rollback c = c\<lparr>pending := None\<rparr>"

section \<open>Payment.create (models/Payment.js, lines 8-79)\<close>

text \<open>
  A JavaScript property is absent (\<open>Undefined\<close>), \<^verbatim>\<open>null\<close> or a value. The payment
  method is one of the closed enumeration of the column.
\<close>

datatype 'a js_opt = Undefined | Null | Val 'a

definition or_default :: "'a js_opt \<Rightarrow> 'a js_opt \<Rightarrow> 'a js_opt" where
  "or_default v d = (case v of Undefined \<Rightarrow> d | _ \<Rightarrow> v)"

definition to_column :: "'a js_opt \<Rightarrow> 'a option" where
  "to_column v = (case v of Val x \<Rightarrow> Some x | _ \<Rightarrow> None)"

record payment_data =
  pd_customer_id :: nat
  pd_account_number :: string
  pd_payment_amount :: amount
  pd_payment_method :: "payment_method js_opt"
  pd_transaction_id :: "string js_opt"
  pd_remarks :: "string js_opt"

record payment_record =
  r_id :: nat
  r_payment_reference_id :: string
  r_payment_amount :: amount
  r_payment_method :: "payment_method js_opt"
  r_account_number :: string
  r_status :: payment_status
  r_payment_date :: nat

text \<open>
  What a call reads from outside the program: the clock, twice (\<^verbatim>\<open>Date.now()\<close> and
  \<^verbatim>\<open>new Date()\<close>, in milliseconds), the string \<^verbatim>\<open>uuidv4()\<close> returns, and which of its
  calls on the connection fails because the connection is lost before the server has
  carried the call out. A commit that the server has carried out and whose answer alone
  is lost is not in the model.
\<close>

record env =
  e_now :: nat
  e_date :: nat
  e_uuid :: string
  e_fails :: "sql_step \<Rightarrow> bool"

text \<open>Decimal digits of a number, as \<^verbatim>\<open>${Date.now()}\<close> prints them.\<close>

definition digit_char :: "nat \<Rightarrow> char" where
  "digit_char d = ''0123456789'' ! d"

fun dec :: "nat \<Rightarrow> string" where
  "dec n = (if n < 10 then [digit_char n] else dec (n div 10) @ [digit_char (n mod 10)])"

declare dec.simps [simp del]

text \<open>\<^verbatim>\<open>`PAY-${Date.now()}-${uuidv4().substring(0, 8)}`\<close>\<close>

definition payment_reference :: "nat \<Rightarrow> string \<Rightarrow> string" where
  "payment_reference ms u = ''PAY-'' @ dec ms @ ''-'' @ take 8 u"

text \<open>
  A \<^verbatim>\<open>DATETIME\<close> column without fractional digits holds whole seconds; the server rounds
  the milliseconds of the bound date.
\<close>

definition datetime_of_ms :: "nat \<Rightarrow> nat" where
  "datetime_of_ms ms = (ms + 500) div 1000"

text \<open>
  The errors that reach a caller: a driver error as it is, the rethrown errors of the
  models with the message of their cause, an error carrying an HTTP status, and the
  \<^verbatim>\<open>TypeError\<close> of reading a property of \<^verbatim>\<open>null\<close>.
\<close>

datatype app_error =
  Raw sql_error
  | ErrorCreatingPayment sql_error
  | ErrorFetchingPayments sql_error
  | ErrorFetchingCustomers sql_error
  | StatusError nat string
  | TypeError

text \<open>
  The state the service runs in: the committed tables, the \<^verbatim>\<open>AUTO_INCREMENT\<close> counter of
  \<^verbatim>\<open>payments\<close>, a log that records each entry into \<^verbatim>\<open>processPayment\<close> and into
  \<^verbatim>\<open>Payment.create\<close>, so that "was not called" can be read off the state, and the pool.
  Of the pool the state keeps what matters to a posting: \<open>left_open\<close> holds, for every
  connection that was handed back while its transaction was still open, the tables as that
  transaction sees them. \<^verbatim>\<open>conn.release()\<close> ends no transaction, it only records. A call
  is given a connection on which no transaction is open; what a connection in
  \<open>left_open\<close> would do to a later caller is not followed.
\<close>

datatype call = CallProcessPayment | CallCreate

record world =
  tables :: database
  payments_auto_increment :: nat
  calls :: "call list"
  left_open :: "database list"

definition getConnection :: "world \<Rightarrow> connection" where
  "getConnection w =
     \<lparr>visible = tables w, pending = None, auto_increment = payments_auto_increment w\<rparr>"

definition release :: "connection \<Rightarrow> world \<Rightarrow> world" where
  "release c w =
     w\<lparr>tables := visible c, payments_auto_increment := auto_increment c,
       left_open := (case pending c of None \<Rightarrow> left_open w | Some d \<Rightarrow> left_open w @ [d])\<rparr>"

definition new_row :: "env \<Rightarrow> payment_data \<Rightarrow> nat \<Rightarrow> payment" where
  "new_row ev pd i =
     \<lparr>p_id = i,
      p_payment_reference_id = payment_reference (e_now ev) (e_uuid ev),
      p_customer_id = pd_customer_id pd,
      p_account_number = pd_account_number pd,
      p_payment_date = datetime_of_ms (e_date ev),
      p_payment_amount = round_to_cents (pd_payment_amount pd),
      p_status = SUCCESS,
      p_payment_method = to_column (or_default (pd_payment_method pd) (Val UPI)),
      p_transaction_id = to_column (or_default (pd_transaction_id pd) Null),
      p_remarks = to_column (or_default (pd_remarks pd) Null)\<rparr>"

text \<open>
  An \<^verbatim>\<open>await\<close> on the connection either throws, leaving the connection as it then is,
  or hands its result to the rest of the block.
\<close>

type_synonym 'a awaited = "(sql_error + 'a) \<times> connection"

definition await :: "env \<Rightarrow> sql_step \<Rightarrow> (connection \<Rightarrow> 'a awaited) \<Rightarrow> connection \<Rightarrow> 'a awaited" where
  "await ev step action c =
     (if e_fails ev step then (Inl (ConnectionLost step), c) else action c)"

definition and_then :: "'a awaited \<Rightarrow> ('a \<Rightarrow> connection \<Rightarrow> 'b awaited) \<Rightarrow> 'b awaited" where
  "and_then m k = (case m of (Inl e, c) \<Rightarrow> (Inl e, c) | (Inr x, c) \<Rightarrow> k x c)"

definition execute_insert :: "(nat \<Rightarrow> payment) \<Rightarrow> connection \<Rightarrow> nat awaited" where
  "execute_insert row_of c =
     (let i = auto_increment c
      in case execute (insert_payment (row_of i)) (c\<lparr>auto_increment := Suc i\<rparr>) of
           (Inl e, c') \<Rightarrow> (Inl e, c')
         | (Inr _, c') \<Rightarrow> (Inr i, c'))"

text \<open>The body of the \<^verbatim>\<open>try\<close> block, line by line.\<close>

definition try_block :: "env \<Rightarrow> payment_data \<Rightarrow> connection \<Rightarrow> payment_record awaited" where
  "try_block ev pd c0 =
     and_then (await ev BeginTransaction (\<lambda>c. (Inr (), beginTransaction c)) c0) (\<lambda>_ c1.
     and_then (await ev InsertPayment (execute_insert (new_row ev pd)) c1) (\<lambda>i c2.
     and_then (await ev UpdateCustomer
                 (execute (update_customer (pd_payment_amount pd) (pd_customer_id pd))) c2) (\<lambda>_ c3.
     and_then (await ev UpdateSchedule
                 (execute (update_schedule (pd_payment_amount pd) (pd_customer_id pd))) c3) (\<lambda>_ c4.
     and_then (await ev Commit (\<lambda>c. (Inr (), commit c)) c4) (\<lambda>_ c5.
       (Inr \<lparr>r_id = i,
             r_payment_reference_id = payment_reference (e_now ev) (e_uuid ev),
             r_payment_amount = pd_payment_amount pd,
             r_payment_method = or_default (pd_payment_method pd) (Val UPI),
             r_account_number = pd_account_number pd,
             r_status = SUCCESS,
             r_payment_date = e_date ev\<rparr>, c5))))))"

text \<open>
  \<^verbatim>\<open>getConnection\<close> is awaited before the \<^verbatim>\<open>try\<close>: its error reaches the caller as it
  is. The \<^verbatim>\<open>catch\<close> rolls back and throws a new error with the message of the first; a
  rollback that itself throws replaces it. When the connection is lost the server drops
  the open transaction, which is what \<open>rollback\<close> does to the tables. \<^verbatim>\<open>finally\<close>
  releases the connection.
\<close>

definition create :: "env \<Rightarrow> payment_data \<Rightarrow> world \<Rightarrow> (app_error + payment_record) \<times> world" where
  "create ev pd w0 =
     (let w = w0\<lparr>calls := calls w0 @ [CallCreate]\<rparr> in
      if e_fails ev GetConnection then (Inl (Raw (ConnectionLost GetConnection)), w)
      else case try_block ev pd (getConnection w) of
        (Inr r, c) \<Rightarrow> (Inr r, release c w)
      | (Inl e, c) \<Rightarrow>
          if e_fails ev Rollback
          then (Inl (Raw (ConnectionLost Rollback)), release (rollback c) w)
          else (Inl (ErrorCreatingPayment e), release (rollback c) w))"

section \<open>Reading payments back (models/Payment.js, lines 84-184)\<close>

text \<open>\<^verbatim>\<open>rows[0] || null\<close> of \<^verbatim>\<open>SELECT * FROM payments WHERE payment_reference_id = ?\<close>\<close>

definition findByReferenceId :: "database \<Rightarrow> string \<Rightarrow> payment option" where
  "findByReferenceId d referenceId =
     find (\<lambda>p. p_payment_reference_id p = referenceId) (payments d)"

text \<open>
  \<^verbatim>\<open>ORDER BY key DESC\<close>: the rows with the larger key first. Rows with equal keys stay in
  scan order here; the server promises no order among them.
\<close>

definition order_by_desc :: "('a \<Rightarrow> nat) \<Rightarrow> 'a list \<Rightarrow> 'a list" where
  "order_by_desc key rows = sort_key (\<lambda>r. - int (key r)) rows"


subsection \<open>The arguments \<^verbatim>\<open>limit\<close> and \<^verbatim>\<open>offset\<close>\<close>

text \<open>
  The two arguments are any JavaScript values. A finite number is held as the rational
  it denotes: \<^verbatim>\<open>Number.isFinite\<close>, \<^verbatim>\<open>Math.floor\<close> and \<^verbatim>\<open>Math.max(0, _)\<close> are exact
  on doubles, and \<^verbatim>\<open>Math.max(0, -0)\<close> is \<open>0\<close>.
\<close>

datatype js_number = NaN | PosInfinity | NegInfinity | Finite rat

datatype js_value = JUndefined | JNull | JBoolean bool | JNumber js_number | JString string

text \<open>A default parameter value replaces \<^verbatim>\<open>undefined\<close> only.\<close>

definition param_default :: "js_value \<Rightarrow> js_value \<Rightarrow> js_value" where
  "param_default v d = (if v = JUndefined then d else v)"


text \<open>\<^verbatim>\<open>Number.isFinite(v) ? Math.max(0, Math.floor(v)) : dflt\<close>\<close>

definition sanitize :: "int \<Rightarrow> js_value \<Rightarrow> int" where
  "sanitize dflt v = (case v of JNumber (Finite q) \<Rightarrow> max 0 \<lfloor>q\<rfloor> | _ \<Rightarrow> dflt)"

definition safeLimit :: "js_value \<Rightarrow> int" where
  "safeLimit limit = sanitize 50 (param_default limit (JNumber (Finite 50)))"

definition safeOffset :: "js_value \<Rightarrow> int" where
  "safeOffset offset = sanitize 0 (param_default offset (JNumber (Finite 0)))"

text \<open>
  \<^verbatim>\<open>${n}\<close> for an integral number \<open>n\<close>. The digits printed are the shortest that read back
  as the same double, and among several of that length the closest to \<open>n\<close>. Up to
  \<open>2\<^sup>5\<^sup>3\<close> these are the digits of \<open>n\<close> itself; above, the last digits of \<open>n\<close> may give
  way to zeros. \<open>to_double\<close> is the double nearest to an integer (53 significant bits, a tie
  to the even one), and \<open>shortest_decimal\<close> the number whose digits are printed. Below
  \<open>10\<^sup>2\<^sup>1\<close> it is printed in full, from there on as a mantissa, \<^verbatim>\<open>e+\<close> and the exponent.
\<close>

fun bit_length :: "nat \<Rightarrow> nat" where
  "bit_length n = (if n = 0 then 0 else 1 + bit_length (n div 2))"

declare bit_length.simps [simp del]

definition to_double :: "nat \<Rightarrow> nat" where
  "to_double n =
     (let u = 2 ^ (bit_length n - 53); m = n div u; r = n mod u
      in if 2 * r < u \<or> (2 * r = u \<and> even m) then m * u else (m + 1) * u)"

fun digits :: "nat \<Rightarrow> nat" where
  "digits n = (if n < 10 then 1 else 1 + digits (n div 10))"

declare digits.simps [simp del]

fun shortest_from :: "nat \<Rightarrow> nat \<Rightarrow> nat" where
  "shortest_from x j =
     (if j = 0 then x
      else let p = 10 ^ j; below = (x div p) * p; above = below + p
           in if to_double below = x \<and> to_double above = x
              then (if x - below < above - x \<or> (x - below = above - x \<and> even (x div p))
                    then below else above)
              else if to_double below = x then below
              else if to_double above = x then above
              else shortest_from x (j - 1))"

declare shortest_from.simps [simp del]

definition shortest_decimal :: "nat \<Rightarrow> nat" where
  "shortest_decimal x = shortest_from x (digits x - 1)"

definition strip_zeros :: "string \<Rightarrow> string" where
  "strip_zeros ds = rev (dropWhile (\<lambda>c. c = CHR ''0'') (rev ds))"

definition exponent_text :: "nat \<Rightarrow> string" where
  "exponent_text n =
     (let ds = dec n; m = strip_zeros ds
      in (case m of [] \<Rightarrow> [] | [c] \<Rightarrow> [c] | c # cs \<Rightarrow> c # CHR ''.'' # cs)
         @ ''e+'' @ dec (length ds - 1))"

definition unsigned_text :: "nat \<Rightarrow> string" where
  "unsigned_text x =
     (let v = shortest_decimal x in if v < 10 ^ 21 then dec v else exponent_text v)"

definition number_text :: "int \<Rightarrow> string" where
  "number_text n =
     (if n < 0 then CHR ''-'' # unsigned_text (nat (- n)) else unsigned_text (nat n))"

text \<open>\<^verbatim>\<open>LIMIT ${safeLimit} OFFSET ${safeOffset}\<close>, the only part of a query that is not fixed text.\<close>

definition paging_clause :: "int \<Rightarrow> int \<Rightarrow> string" where
  "paging_clause l off = ''LIMIT '' @ number_text l @ '' OFFSET '' @ number_text off"

text \<open>
  The server takes each operand of \<^verbatim>\<open>LIMIT\<close> only as an unsigned integer literal: digits
  alone, with a value below \<open>2\<^sup>6\<^sup>4\<close>. Anything else is a syntax error of the statement.
\<close>

definition digit_value :: "char \<Rightarrow> nat option" where
  "digit_value c =
     (if c \<in> set ''0123456789''
      then Some (length (takeWhile (\<lambda>x. x \<noteq> c) ''0123456789''))
      else None)"

fun parse_digits :: "nat \<Rightarrow> string \<Rightarrow> nat option" where
  "parse_digits acc [] = Some acc"
| "parse_digits acc (c # cs) =
     (case digit_value c of None \<Rightarrow> None | Some v \<Rightarrow> parse_digits (10 * acc + v) cs)"

definition unsigned_literal :: "string \<Rightarrow> nat option" where
  "unsigned_literal s =
     (if s = [] then None
      else case parse_digits 0 s of
             None \<Rightarrow> None
           | Some n \<Rightarrow> if n < 2 ^ 64 then Some n else None)"

definition paged :: "string \<Rightarrow> string \<Rightarrow> 'a list \<Rightarrow> sql_error + 'a list" where
  "paged limit_text offset_text rows =
     (case unsigned_literal limit_text of
        None \<Rightarrow> Inl SyntaxError
      | Some l \<Rightarrow>
          (case unsigned_literal offset_text of
             None \<Rightarrow> Inl SyntaxError
           | Some off \<Rightarrow> Inr (take l (drop off rows))))"

definition rethrow :: "(sql_error \<Rightarrow> app_error) \<Rightarrow> sql_error + 'a \<Rightarrow> app_error + 'a" where
  "rethrow wrap r = (case r of Inl e \<Rightarrow> Inl (wrap e) | Inr x \<Rightarrow> Inr x)"

text \<open>
  \<^verbatim>\<open>SELECT p.* FROM payments p WHERE p.account_number = ? AND p.status IN ('SUCCESS', 'FAILED')
  ORDER BY p.payment_date DESC LIMIT ${safeLimit} OFFSET ${safeOffset}\<close>
\<close>

definition findByAccountNumber :: "database \<Rightarrow> string \<Rightarrow> js_value \<Rightarrow> js_value \<Rightarrow> app_error + payment list" where
  "findByAccountNumber d accountNumber limit offset =
     rethrow ErrorFetchingPayments
       (paged (number_text (safeLimit limit)) (number_text (safeOffset offset))
          (order_by_desc p_payment_date
             (filter (\<lambda>p. p_account_number p = accountNumber
                          \<and> (p_status p = SUCCESS \<or> p_status p = FAILED)) (payments d))))"

definition findByCustomerId :: "database \<Rightarrow> nat \<Rightarrow> js_value \<Rightarrow> js_value \<Rightarrow> app_error + payment list" where
  "findByCustomerId d customerId limit offset =
     rethrow ErrorFetchingPayments
       (paged (number_text (safeLimit limit)) (number_text (safeOffset offset))
          (order_by_desc p_payment_date
             (filter (\<lambda>p. p_customer_id p = customerId
                          \<and> (p_status p = SUCCESS \<or> p_status p = FAILED)) (payments d))))"





section \<open>Customer (models/Customer.js)\<close>

text \<open>
  \<^verbatim>\<open>SELECT * FROM customers WHERE status = 'ACTIVE' ORDER BY created_at DESC
  LIMIT ${safeLimit} OFFSET ${safeOffset}\<close>
\<close>

definition Customer_findAll :: "database \<Rightarrow> js_value \<Rightarrow> js_value \<Rightarrow> app_error + customer list" where
  "Customer_findAll d limit offset =
     rethrow ErrorFetchingCustomers
       (paged (number_text (safeLimit limit)) (number_text (safeOffset offset))
          (order_by_desc c_created_at (filter (\<lambda>c. c_status c = ACTIVE) (customers d))))"

definition Customer_findByAccountNumber :: "database \<Rightarrow> string \<Rightarrow> customer option" where
  "Customer_findByAccountNumber d accountNumber =
     find (\<lambda>c. c_account_number c = accountNumber) (customers d)"

definition Customer_findById :: "database \<Rightarrow> nat \<Rightarrow> customer option" where
  "Customer_findById d i = find (\<lambda>c. c_id c = i) (customers d)"

section \<open>PaymentService.processPayment (services/PaymentService.js)\<close>

record payment_request =
  rq_account_number :: string
  rq_payment_amount :: amount
  rq_payment_method :: "payment_method js_opt"
  rq_transaction_id :: "string js_opt"
  rq_remarks :: "string js_opt"

record customer_summary =
  cs_account_number :: string
  cs_customer_name :: string
  cs_outstanding_balance :: "cents option"
  cs_emi_due :: cents

record service_result =
  sr_success :: bool
  sr_payment :: payment_record
  sr_customer :: customer_summary

text \<open>
  \<^verbatim>\<open>paymentData.payment_amount > customer.outstanding_balance\<close>: the driver hands the
  column over as a decimal string or \<^verbatim>\<open>null\<close>, and the comparison turns it into a
  number, \<^verbatim>\<open>null\<close> into \<open>0\<close>.
\<close>

definition exceeds :: "amount \<Rightarrow> cents option \<Rightarrow> bool" where
  "exceeds amount balance =
     (case balance of None \<Rightarrow> amount > 0 | Some b \<Rightarrow> amount > of_int b)"

text \<open>\<^verbatim>\<open>v || d\<close> on a property that is absent, \<^verbatim>\<open>null\<close> or a value of the enumeration.\<close>

definition or_else :: "'a js_opt \<Rightarrow> 'a \<Rightarrow> 'a js_opt" where
  "or_else v d = (case v of Val x \<Rightarrow> Val x | _ \<Rightarrow> Val d)"

definition processPayment :: "env \<Rightarrow> payment_request \<Rightarrow> world \<Rightarrow> (app_error + service_result) \<times> world" where
  "processPayment ev paymentData w0 =
     (let w = w0\<lparr>calls := calls w0 @ [CallProcessPayment]\<rparr> in
      case Customer_findByAccountNumber (tables w) (rq_account_number paymentData) of
        None \<Rightarrow> (Inl (StatusError 404 ''Customer not found''), w)
      | Some customer \<Rightarrow>
          if rq_payment_amount paymentData \<le> 0
          then (Inl (StatusError 400 ''Payment amount must be greater than 0''), w)
          else if exceeds (rq_payment_amount paymentData) (c_outstanding_balance customer)
          then (Inl (StatusError 400 ''Payment amount exceeds outstanding balance''), w)
          else
            (case create ev
                    \<lparr>pd_customer_id = c_id customer,
                     pd_account_number = rq_account_number paymentData,
                     pd_payment_amount = rq_payment_amount paymentData,
                     pd_payment_method = or_else (rq_payment_method paymentData) UPI,
                     pd_transaction_id = rq_transaction_id paymentData,
                     pd_remarks = rq_remarks paymentData\<rparr> w of
               (Inl e, w') \<Rightarrow> (Inl e, w')
             | (Inr paymentRecord, w') \<Rightarrow>
                 (case Customer_findById (tables w') (c_id customer) of
                    None \<Rightarrow> (Inl TypeError, w')
                  | Some updatedCustomer \<Rightarrow>
                      (Inr \<lparr>sr_success = True,
                            sr_payment = paymentRecord,
                            sr_customer =
                              \<lparr>cs_account_number = c_account_number updatedCustomer,
                               cs_customer_name = c_customer_name updatedCustomer,
                               cs_outstanding_balance = c_outstanding_balance updatedCustomer,
                               cs_emi_due = c_emi_due updatedCustomer\<rparr>\<rparr>, w'))))"

section \<open>The validation middleware of \<^verbatim>\<open>POST /api/payments\<close> (middleware/validation.js)\<close>

text \<open>
  The fields of the request body as the validators see them. A validator works on the
  string form of the value, which is empty for an absent one. For
  \<^verbatim>\<open>payment_amount\<close> the field records what \<^verbatim>\<open>isFloat\<close> makes of that string: not the
  text of a floating-point number, or the number it denotes.
\<close>

datatype amount_field = NotFloat | Float rat

record body =
  b_account_number :: "string js_opt"
  b_payment_amount :: amount_field
  b_payment_method :: "string js_opt"
  b_transaction_id :: "string js_opt"
  b_remarks :: "string js_opt"

record validation_error =
  ve_field :: string
  ve_message :: string

record response =
  rs_status :: nat
  rs_success :: bool
  rs_message :: string
  rs_errors :: "validation_error list"

definition is_space :: "char \<Rightarrow> bool" where
  "is_space c = ((of_char c :: nat) \<in> {9, 10, 11, 12, 13, 32, 160})"

definition trim :: "string \<Rightarrow> string" where
  "trim s = rev (dropWhile is_space (rev (dropWhile is_space s)))"

definition to_string :: "string js_opt \<Rightarrow> string" where
  "to_string v = (case v of Val s \<Rightarrow> s | _ \<Rightarrow> [])"

text \<open>
  \<^verbatim>\<open>body('account_number').trim().notEmpty().withMessage(..).isLength({ min: 3 }).withMessage(..)\<close>:
  every validator of a chain runs, each failure adds its message.
\<close>

definition account_number_errors :: "body \<Rightarrow> validation_error list" where
  "account_number_errors b =
     (let v = trim (to_string (b_account_number b)) in
      (if v = [] then [\<lparr>ve_field = ''account_number'', ve_message = ''Account number is required''\<rparr>] else [])
      @ (if length v < 3
         then [\<lparr>ve_field = ''account_number'',
                ve_message = ''Account number must be at least 3 characters''\<rparr>]
         else []))"

text \<open>\<^verbatim>\<open>body('payment_amount').isFloat({ min: 0.01 })\<close>\<close>

definition isFloat_min :: "rat \<Rightarrow> amount_field \<Rightarrow> bool" where
  "isFloat_min m a = (case a of NotFloat \<Rightarrow> False | Float q \<Rightarrow> m \<le> q)"

definition payment_amount_errors :: "body \<Rightarrow> validation_error list" where
  "payment_amount_errors b =
     (if isFloat_min (1 / 100) (b_payment_amount b) then []
      else [\<lparr>ve_field = ''payment_amount'',
             ve_message = ''Payment amount must be a valid number greater than 0''\<rparr>])"

text \<open>\<^verbatim>\<open>.optional()\<close> skips the chain of a field that is absent.\<close>

definition payment_method_errors :: "body \<Rightarrow> validation_error list" where
  "payment_method_errors b =
     (if b_payment_method b = Undefined then []
      else if to_string (b_payment_method b) \<in> set [''UPI'', ''CARD'', ''NET_BANKING'', ''CHEQUE''] then []
      else [\<lparr>ve_field = ''payment_method'', ve_message = ''Invalid payment method''\<rparr>])"

text \<open>\<^verbatim>\<open>body('remarks').optional().trim().isLength({ max: 500 })\<close>\<close>

definition remarks_errors :: "body \<Rightarrow> validation_error list" where
  "remarks_errors b =
     (if b_remarks b = Undefined then []
      else if length (trim (to_string (b_remarks b))) \<le> 500 then []
      else [\<lparr>ve_field = ''remarks'', ve_message = ''Remarks must not exceed 500 characters''\<rparr>])"

definition validationResult :: "body \<Rightarrow> validation_error list" where
  "validationResult b =
     account_number_errors b @ payment_amount_errors b @ payment_method_errors b @ remarks_errors b"

text \<open>The sanitizers of the chains write the trimmed strings back into the body.\<close>

definition trimmed :: "string js_opt \<Rightarrow> string js_opt" where
  "trimmed v = (case v of Undefined \<Rightarrow> Undefined | _ \<Rightarrow> Val (trim (to_string v)))"

definition sanitized :: "body \<Rightarrow> body" where
  "sanitized b =
     b\<lparr>b_account_number := Val (trim (to_string (b_account_number b))),
       b_transaction_id := trimmed (b_transaction_id b),
       b_remarks := trimmed (b_remarks b)\<rparr>"

text \<open>
  \<^verbatim>\<open>handleValidationErrors\<close> ends the request with status 400 when there is an error and
  calls \<^verbatim>\<open>next()\<close> otherwise. \<^verbatim>\<open>router.post('/', validatePayment, handler)\<close> runs the
  handler, which is what calls \<^verbatim>\<open>PaymentService.processPayment\<close>, only from that
  \<^verbatim>\<open>next()\<close>.
\<close>

definition handleValidationErrors :: "body \<Rightarrow> response + body" where
  "handleValidationErrors b =
     (if validationResult b \<noteq> []
      then Inl \<lparr>rs_status = 400, rs_success = False, rs_message = ''Validation Error'',
                rs_errors = validationResult b\<rparr>
      else Inr (sanitized b))"

definition post_payments :: "(body \<Rightarrow> 'w \<Rightarrow> response \<times> 'w) \<Rightarrow> body \<Rightarrow> 'w \<Rightarrow> response \<times> 'w" where
  "post_payments handler b w =
     (case handleValidationErrors b of
        Inl rejected \<Rightarrow> (rejected, w)
      | Inr b' \<Rightarrow> handler b' w)"

section \<open>The shape of a payment reference\<close>

definition is_hex :: "char \<Rightarrow> bool" where
  "is_hex c = (c \<in> set ''0123456789abcdef'')"

text \<open>
  The text \<^verbatim>\<open>uuidv4()\<close> returns: 32 hexadecimal digits, which are the 128 bits of the
  identifier, in groups of 8, 4, 4, 4 and 12 with a hyphen between them. In the
  template an \<open>x\<close> stands for a hexadecimal digit.
\<close>

definition uuid_template :: string where
  "uuid_template = ''xxxxxxxx-xxxx-xxxx-xxxx-xxxxxxxxxxxx''"

definition is_uuid :: "string \<Rightarrow> bool" where
  "is_uuid u =
     list_all2 (\<lambda>c t. if t = CHR ''-'' then c = CHR ''-'' else is_hex c) u uuid_template"

section \<open>A small database to run the definitions on\<close>

definition rahul :: customer where
  "rahul =
     \<lparr>c_id = 1, c_account_number = ''ACC001'', c_customer_name = ''Rahul Kumar'',
      c_emi_due = 500000, c_outstanding_balance = Some 15000000, c_status = ACTIVE,
      c_created_at = 10\<rparr>"

definition priya :: customer where
  "priya =
     \<lparr>c_id = 2, c_account_number = ''ACC002'', c_customer_name = ''Priya Singh'',
      c_emi_due = 450000, c_outstanding_balance = Some 19500000, c_status = ACTIVE,
      c_created_at = 20\<rparr>"

definition installment :: "nat \<Rightarrow> nat \<Rightarrow> schedule_entry" where
  "installment i cid =
     \<lparr>s_id = i, s_customer_id = cid, s_due_date = 100 + i, s_due_amount = 500000,
      s_paid_amount = Some 0, s_status = SCHEDULE_PENDING\<rparr>"

definition sample_db :: database where
  "sample_db =
     \<lparr>customers = [rahul, priya], payments = [],
      payment_schedule = [installment 1 2, installment 2 1, installment 3 1]\<rparr>"

definition sample_world :: world where
  "sample_world =
     \<lparr>tables = sample_db, payments_auto_increment = 1, calls = [], left_open = []\<rparr>"

definition sample_env :: "nat \<Rightarrow> string \<Rightarrow> (sql_step \<Rightarrow> bool) \<Rightarrow> env" where
  "sample_env ms u f = \<lparr>e_now = ms, e_date = ms, e_uuid = u, e_fails = f\<rparr>"

definition sample_data :: "amount \<Rightarrow> payment_data" where
  "sample_data amount =
     \<lparr>pd_customer_id = 1, pd_account_number = ''ACC001'', pd_payment_amount = amount,
      pd_payment_method = Undefined, pd_transaction_id = Undefined, pd_remarks = Undefined\<rparr>"

text \<open>
  A request whose remarks are one letter followed by 500 spaces, and a handler that only
  counts how often it is called.
\<close>

definition padded_remarks :: string where
  "padded_remarks = CHR ''x'' # replicate 500 CHR '' ''"

definition padded_body :: body where
  "padded_body =
     \<lparr>b_account_number = Val ''ACC001'', b_payment_amount = Float 5000,
      b_payment_method = Undefined, b_transaction_id = Undefined,
      b_remarks = Val padded_remarks\<rparr>"

definition created :: response where
  "created =
     \<lparr>rs_status = 201, rs_success = True, rs_message = ''Payment processed successfully'',
      rs_errors = []\<rparr>"

definition counting_handler :: "body \<Rightarrow> nat \<Rightarrow> response \<times> nat" where
  "counting_handler b n = (created, Suc n)"

section \<open>What a posting commits\<close>


lemma dec_digit: "n < 10 \<Longrightarrow> dec n = [digit_char n]"
  by (simp add: dec.simps)

lemma dec_more: "10 \<le> n \<Longrightarrow> dec n = dec (n div 10) @ [digit_char (n mod 10)]"
  by (subst dec.simps) simp

lemmas dec_eval = dec_digit dec_more digit_char_def

lemma floor_rat_numeral: "\<lfloor>numeral a / numeral b :: rat\<rfloor> = numeral a div numeral b"
  by (metis floor_divide_of_int_eq of_int_numeral)

lemma round_to_cents_of_int: "round_to_cents (of_int k) = k"
proof (cases "0 \<le> k")
  case True
  have "\<lfloor>of_int k + 1 / 2 :: rat\<rfloor> = k" by (simp add: floor_eq_iff)
  with True show ?thesis by (simp add: round_to_cents_def)
next
  case False
  have "\<lfloor>of_int (- k) + 1 / 2 :: rat\<rfloor> = - k" by (simp only: floor_eq_iff) simp
  with False show ?thesis by (simp add: round_to_cents_def)
qed

lemma round_to_cents_numeral: "round_to_cents (numeral n) = numeral n"
  using round_to_cents_of_int [of "numeral n"] by simp

lemma bit_length_0: "bit_length 0 = 0"
  by (simp add: bit_length.simps)

lemma bit_length_pos: "0 < n \<Longrightarrow> bit_length n = 1 + bit_length (n div 2)"
  by (subst bit_length.simps) simp

lemma digits_small: "n < 10 \<Longrightarrow> digits n = 1"
  by (simp add: digits.simps)

lemma digits_more: "10 \<le> n \<Longrightarrow> digits n = 1 + digits (n div 10)"
  by (subst digits.simps) simp

lemma shortest_from_0: "shortest_from x 0 = x"
  by (simp add: shortest_from.simps)

lemma shortest_from_pos:
  "0 < j \<Longrightarrow> shortest_from x j =
     (let p = 10 ^ j; below = (x div p) * p; above = below + p
      in if to_double below = x \<and> to_double above = x
         then (if x - below < above - x \<or> (x - below = above - x \<and> even (x div p))
               then below else above)
         else if to_double below = x then below
         else if to_double above = x then above
         else shortest_from x (j - 1))"
  by (subst shortest_from.simps) simp

lemmas text_eval =
  bit_length_0 bit_length_pos digits_small digits_more shortest_from_0 shortest_from_pos
  to_double_def shortest_decimal_def unsigned_text_def number_text_def exponent_text_def
  strip_zeros_def Let_def dec_eval

lemma try_block_Inl:
  "pending c0 = None \<Longrightarrow> try_block ev pd c0 = (Inl e, c) \<Longrightarrow> visible c = visible c0"
  unfolding try_block_def and_then_def await_def execute_insert_def execute_def
    beginTransaction_def commit_def Let_def
  by (auto split: if_splits sum.splits prod.splits option.splits)

lemma try_block_Inr:
  assumes "pending c0 = None" and "try_block ev pd c0 = (Inr r, c)"
  shows "\<exists>d1 d2 d3.
           insert_payment (new_row ev pd (auto_increment c0)) (visible c0) = Inr d1
         \<and> update_customer (pd_payment_amount pd) (pd_customer_id pd) d1 = Inr d2
         \<and> update_schedule (pd_payment_amount pd) (pd_customer_id pd) d2 = Inr d3
         \<and> c = \<lparr>visible = d3, pending = None, auto_increment = Suc (auto_increment c0)\<rparr>"
    and "\<not> e_fails ev BeginTransaction" "\<not> e_fails ev InsertPayment" "\<not> e_fails ev UpdateCustomer"
        "\<not> e_fails ev UpdateSchedule" "\<not> e_fails ev Commit"
    and "r = \<lparr>r_id = auto_increment c0,
             r_payment_reference_id = payment_reference (e_now ev) (e_uuid ev),
             r_payment_amount = pd_payment_amount pd,
             r_payment_method = or_default (pd_payment_method pd) (Val UPI),
             r_account_number = pd_account_number pd,
             r_status = SUCCESS,
             r_payment_date = e_date ev\<rparr>"
  using assms
  unfolding try_block_def and_then_def await_def execute_insert_def execute_def
    beginTransaction_def commit_def Let_def
  by (auto split: if_splits sum.splits prod.splits option.splits)


lemma release_open: "pending c = Some d \<Longrightarrow> left_open (release c w) = left_open w @ [d]"
  by (simp add: release_def)

lemma create_Inl:
  assumes "create ev pd w = (Inl err, w')"
  shows "tables w' = tables w" and "calls w' = calls w @ [CallCreate]"
    and "err = Raw (ConnectionLost GetConnection) \<or> err = Raw (ConnectionLost Rollback)
         \<or> (\<exists>e. err = ErrorCreatingPayment e)"
    and "left_open w' = left_open w"
  using assms try_block_Inl [of "getConnection (w\<lparr>calls := calls w @ [CallCreate]\<rparr>)" ev pd]
  unfolding create_def Let_def
  by (auto simp: getConnection_def release_def rollback_def split: if_splits prod.splits sum.splits)

lemma create_Inr:
  assumes "create ev pd w = (Inr r, w')"
  shows "\<exists>d1 d2.
           insert_payment (new_row ev pd (payments_auto_increment w)) (tables w) = Inr d1
         \<and> update_customer (pd_payment_amount pd) (pd_customer_id pd) d1 = Inr d2
         \<and> update_schedule (pd_payment_amount pd) (pd_customer_id pd) d2 = Inr (tables w')"
    and "payments_auto_increment w' = Suc (payments_auto_increment w)"
    and "calls w' = calls w @ [CallCreate]"
    and "\<And>s. s \<noteq> Rollback \<Longrightarrow> \<not> e_fails ev s"
    and "left_open w' = left_open w"
    and "r = \<lparr>r_id = payments_auto_increment w,
             r_payment_reference_id = payment_reference (e_now ev) (e_uuid ev),
             r_payment_amount = pd_payment_amount pd,
             r_payment_method = or_default (pd_payment_method pd) (Val UPI),
             r_account_number = pd_account_number pd,
             r_status = SUCCESS,
             r_payment_date = e_date ev\<rparr>"
proof -
  let ?w = "w\<lparr>calls := calls w @ [CallCreate]\<rparr>"
  from assms have nf: "\<not> e_fails ev GetConnection"
    unfolding create_def Let_def by (auto split: if_splits)
  from assms nf obtain c where tb: "try_block ev pd (getConnection ?w) = (Inr r, c)"
    and w': "w' = release c ?w"
    unfolding create_def Let_def by (auto split: if_splits prod.splits sum.splits)
  have p: "pending (getConnection ?w) = None" by (simp add: getConnection_def)
  note facts = try_block_Inr [OF p tb]
  from facts(1) obtain d1 d2 d3 where
    i: "insert_payment (new_row ev pd (auto_increment (getConnection ?w))) (visible (getConnection ?w)) = Inr d1"
    and u: "update_customer (pd_payment_amount pd) (pd_customer_id pd) d1 = Inr d2"
    and s: "update_schedule (pd_payment_amount pd) (pd_customer_id pd) d2 = Inr d3"
    and c: "c = \<lparr>visible = d3, pending = None, auto_increment = Suc (auto_increment (getConnection ?w))\<rparr>"
    by blast
  from i u s c w' show "\<exists>d1 d2.
           insert_payment (new_row ev pd (payments_auto_increment w)) (tables w) = Inr d1
         \<and> update_customer (pd_payment_amount pd) (pd_customer_id pd) d1 = Inr d2
         \<and> update_schedule (pd_payment_amount pd) (pd_customer_id pd) d2 = Inr (tables w')"
    by (auto simp: getConnection_def release_def)
  from c w' show "payments_auto_increment w' = Suc (payments_auto_increment w)"
    by (simp add: getConnection_def release_def)
  from w' show "calls w' = calls w @ [CallCreate]" by (simp add: release_def)
  from c w' show "left_open w' = left_open w" by (simp add: release_def)
  show "\<And>s. s \<noteq> Rollback \<Longrightarrow> \<not> e_fails ev s"
  proof -
    fix s :: sql_step assume "s \<noteq> Rollback"
    then show "\<not> e_fails ev s" using nf facts(2-6) by (cases s) auto
  qed
  from facts(7) show "r = \<lparr>r_id = payments_auto_increment w,
             r_payment_reference_id = payment_reference (e_now ev) (e_uuid ev),
             r_payment_amount = pd_payment_amount pd,
             r_payment_method = or_default (pd_payment_method pd) (Val UPI),
             r_account_number = pd_account_number pd,
             r_status = SUCCESS,
             r_payment_date = e_date ev\<rparr>"
    by (simp add: getConnection_def)
qed


text \<open>
  Claim C1 (atomicity of posting). Whatever \<^verbatim>\<open>Payment.create\<close> returns, the connection
  it hands back to the pool has no transaction open: nothing is added to \<open>left_open\<close>.
  If it throws, the transaction has been rolled back: the committed tables are those from
  before the call (no payment row, no balance change, no schedule change), with nothing
  pending; and the error the caller gets is the rethrown \<^verbatim>\<open>Error creating payment\<close>, or
  the driver's own error when it is \<^verbatim>\<open>getConnection\<close> or the rollback itself that
  failed. If it returns a record, then no step failed and the insert, the balance update
  and the schedule update all succeeded, one on the result of the other, and what is
  committed is the result of the last: a failure of any step is never swallowed.
\<close>

theorem create_atomic:
  assumes "create ev pd w = (res, w')"
  shows "left_open w' = left_open w
       \<and> (case res of
           Inl err \<Rightarrow>
             tables w' = tables w
             \<and> (err = Raw (ConnectionLost GetConnection) \<or> err = Raw (ConnectionLost Rollback)
                \<or> (\<exists>e. err = ErrorCreatingPayment e))
         | Inr r \<Rightarrow>
             (\<forall>s. s \<noteq> Rollback \<longrightarrow> \<not> e_fails ev s)
             \<and> (\<exists>d1 d2.
                   insert_payment (new_row ev pd (payments_auto_increment w)) (tables w) = Inr d1
                 \<and> update_customer (pd_payment_amount pd) (pd_customer_id pd) d1 = Inr d2
                 \<and> update_schedule (pd_payment_amount pd) (pd_customer_id pd) d2 = Inr (tables w')))"
proof (cases res)
  case (Inl err)
  with assms create_Inl [of ev pd w err w'] show ?thesis by simp
next
  case (Inr r)
  with assms create_Inr(1,4,5) [of ev pd w r w'] show ?thesis by simp
qed

lemmas run_create =
  create_def try_block_def and_then_def await_def execute_insert_def execute_def
  beginTransaction_def commit_def rollback_def getConnection_def release_def new_row_def
  insert_payment_def update_customer_def update_schedule_def decrement_balance_def
  balance_fits_def decimal_fits_def fits_opt_def schedule_matches_def mark_paid_def paid_fits_def
  or_default_def to_column_def payment_reference_def datetime_of_ms_def
  round_to_cents_numeral
  sample_world_def sample_db_def sample_env_def sample_data_def rahul_def priya_def installment_def

theorem create_atomic_witness:
  "create (sample_env 1700000000123 ''9b2e4f10-aaaa-4bbb-8ccc-0123456789ab'' (\<lambda>s. False))
          \<lparr>pd_customer_id = 99999, pd_account_number = ''INVALID'', pd_payment_amount = 500000,
           pd_payment_method = Val UPI, pd_transaction_id = Undefined, pd_remarks = Undefined\<rparr>
          sample_world
     = (Inl (ErrorCreatingPayment NoReferencedRow),
        sample_world\<lparr>payments_auto_increment := 2, calls := [CallCreate]\<rparr>)
   \<and> create (sample_env 1700000000123 ''9b2e4f10-aaaa-4bbb-8ccc-0123456789ab''
                (\<lambda>s. s = UpdateSchedule))
          (sample_data 500000) sample_world
     = (Inl (ErrorCreatingPayment (ConnectionLost UpdateSchedule)),
        sample_world\<lparr>payments_auto_increment := 2, calls := [CallCreate]\<rparr>)
   \<and> tables (sample_world\<lparr>payments_auto_increment := 2, calls := [CallCreate]\<rparr>)
       = tables sample_world
   \<and> left_open (sample_world\<lparr>payments_auto_increment := 2, calls := [CallCreate]\<rparr>)
       = left_open sample_world"
proof -
  have refused: "create (sample_env 1700000000123 ''9b2e4f10-aaaa-4bbb-8ccc-0123456789ab'' (\<lambda>s. False))
          \<lparr>pd_customer_id = 99999, pd_account_number = ''INVALID'', pd_payment_amount = 500000,
           pd_payment_method = Val UPI, pd_transaction_id = Undefined, pd_remarks = Undefined\<rparr>
          sample_world
     = (Inl (ErrorCreatingPayment NoReferencedRow),
        sample_world\<lparr>payments_auto_increment := 2, calls := [CallCreate]\<rparr>)"
    by (simp add: run_create dec_eval Let_def)
  have cut: "create (sample_env 1700000000123 ''9b2e4f10-aaaa-4bbb-8ccc-0123456789ab''
                (\<lambda>s. s = UpdateSchedule))
          (sample_data 500000) sample_world
     = (Inl (ErrorCreatingPayment (ConnectionLost UpdateSchedule)),
        sample_world\<lparr>payments_auto_increment := 2, calls := [CallCreate]\<rparr>)"
    by (simp add: run_create dec_eval Let_def)
  from create_atomic [OF refused] create_atomic [OF cut] refused cut show ?thesis by simp
qed

lemma insert_payment_Inr:
  assumes "insert_payment row d = Inr d1"
  shows "d1 = d\<lparr>payments := payments d @ [row]\<rparr>"
    and "p_payment_reference_id row \<notin> set (map p_payment_reference_id (payments d))"
    and "p_customer_id row \<in> set (map c_id (customers d))"
  using assms unfolding insert_payment_def by (auto split: if_splits)

lemma update_customer_Inr:
  "update_customer amount cid d = Inr d2 \<Longrightarrow>
     d2 = d\<lparr>customers := map (decrement_balance amount cid) (customers d)\<rparr>"
  unfolding update_customer_def Let_def by (auto split: if_splits)

lemma update_first_none: "find P xs = None \<Longrightarrow> update_first P f xs = xs"
  by (induction xs) (auto split: if_splits)

lemma update_schedule_Inr:
  "update_schedule amount cid d = Inr d3 \<Longrightarrow>
     d3 = d\<lparr>payment_schedule :=
             update_first (schedule_matches cid) (mark_paid amount) (payment_schedule d)\<rparr>"
  unfolding update_schedule_def
  by (auto simp: update_first_none split: option.splits if_splits)

lemma posted:
  assumes "create ev pd w = (Inr r, w')"
  shows "tables w' =
           \<lparr>customers = map (decrement_balance (pd_payment_amount pd) (pd_customer_id pd))
                           (customers (tables w)),
            payments = payments (tables w) @ [new_row ev pd (payments_auto_increment w)],
            payment_schedule =
              update_first (schedule_matches (pd_customer_id pd)) (mark_paid (pd_payment_amount pd))
                (payment_schedule (tables w))\<rparr>"
    and "payment_reference (e_now ev) (e_uuid ev)
           \<notin> set (map p_payment_reference_id (payments (tables w)))"
    and "pd_customer_id pd \<in> set (map c_id (customers (tables w)))"
proof -
  from create_Inr(1) [OF assms] obtain d1 d2 where
    i: "insert_payment (new_row ev pd (payments_auto_increment w)) (tables w) = Inr d1"
    and u: "update_customer (pd_payment_amount pd) (pd_customer_id pd) d1 = Inr d2"
    and s: "update_schedule (pd_payment_amount pd) (pd_customer_id pd) d2 = Inr (tables w')"
    by blast
  note i' = insert_payment_Inr [OF i]
  from i'(1) update_customer_Inr [OF u] update_schedule_Inr [OF s]
  show "tables w' =
           \<lparr>customers = map (decrement_balance (pd_payment_amount pd) (pd_customer_id pd))
                           (customers (tables w)),
            payments = payments (tables w) @ [new_row ev pd (payments_auto_increment w)],
            payment_schedule =
              update_first (schedule_matches (pd_customer_id pd)) (mark_paid (pd_payment_amount pd))
                (payment_schedule (tables w))\<rparr>"
    by simp
  from i'(2) show "payment_reference (e_now ev) (e_uuid ev)
           \<notin> set (map p_payment_reference_id (payments (tables w)))"
    by (simp add: new_row_def)
  from i'(3) show "pd_customer_id pd \<in> set (map c_id (customers (tables w)))"
    by (simp add: new_row_def)
qed


lemmas run_sample =
  run_create dec_eval Let_def


lemma half_cent_posting:
  "create (sample_env 1700000000123 ''9b2e4f10-aaaa-4bbb-8ccc-0123456789ab'' (\<lambda>s. False))
          (sample_data (20001 / 2)) sample_world
     = (Inr \<lparr>r_id = 1, r_payment_reference_id = ''PAY-1700000000123-9b2e4f10'',
             r_payment_amount = 20001 / 2, r_payment_method = Val UPI,
             r_account_number = ''ACC001'', r_status = SUCCESS, r_payment_date = 1700000000123\<rparr>,
        \<lparr>tables =
           \<lparr>customers = [rahul\<lparr>c_outstanding_balance := Some 14990000\<rparr>, priya],
            payments =
              [\<lparr>p_id = 1, p_payment_reference_id = ''PAY-1700000000123-9b2e4f10'',
                p_customer_id = 1, p_account_number = ''ACC001'', p_payment_date = 1700000000,
                p_payment_amount = 10001, p_status = SUCCESS, p_payment_method = Some UPI,
                p_transaction_id = None, p_remarks = None\<rparr>],
            payment_schedule =
              [installment 1 2,
               (installment 2 1)\<lparr>s_paid_amount := Some 10001, s_status := PAID\<rparr>,
               installment 3 1]\<rparr>,
         payments_auto_increment = 2, calls = [CallCreate], left_open = []\<rparr>)"
  by (simp add: run_sample round_to_cents_def floor_rat_numeral)


lemma sample_posting:
  "create (sample_env 1700000000123 ''9b2e4f10-aaaa-4bbb-8ccc-0123456789ab'' (\<lambda>s. False))
          (sample_data 500050) sample_world
     = (Inr \<lparr>r_id = 1, r_payment_reference_id = ''PAY-1700000000123-9b2e4f10'',
             r_payment_amount = 500050, r_payment_method = Val UPI,
             r_account_number = ''ACC001'', r_status = SUCCESS, r_payment_date = 1700000000123\<rparr>,
        \<lparr>tables =
           \<lparr>customers = [rahul\<lparr>c_outstanding_balance := Some 14499950\<rparr>, priya],
            payments =
              [\<lparr>p_id = 1, p_payment_reference_id = ''PAY-1700000000123-9b2e4f10'',
                p_customer_id = 1, p_account_number = ''ACC001'', p_payment_date = 1700000000,
                p_payment_amount = 500050, p_status = SUCCESS, p_payment_method = Some UPI,
                p_transaction_id = None, p_remarks = None\<rparr>],
            payment_schedule =
              [installment 1 2,
               (installment 2 1)\<lparr>s_paid_amount := Some 500050, s_status := PAID\<rparr>,
               installment 3 1]\<rparr>,
         payments_auto_increment = 2, calls = [CallCreate], left_open = []\<rparr>)"
  by (simp add: run_sample)

lemma find_snoc:
  "\<forall>y \<in> set xs. \<not> P y \<Longrightarrow> P x \<Longrightarrow> find P (xs @ [x]) = Some x"
  by (induction xs) auto

text \<open>
  Claim C6, as amended (read-after-write round trip). The record a successful posting
  returns has status \<open>SUCCESS\<close>, the amount that was submitted and the submitted method
  (\<open>UPI\<close> when none was given). The row the posting appended to the payments table carries
  the reference of that record, and \<^verbatim>\<open>findByReferenceId\<close> on the committed tables finds
  exactly that row under the reference: its status and method are those of the record,
  and its amount is the amount of the record rounded to whole cents by the column, which
  is that amount itself when it is a whole number of cents. There is no other outcome of
  a posting than this record or a thrown error.
\<close>
theorem read_after_write:
  assumes "create ev pd w = (Inr r, w')"
  shows "r_status r = SUCCESS
       \<and> r_payment_amount r = pd_payment_amount pd
       \<and> r_payment_method r = or_default (pd_payment_method pd) (Val UPI)
       \<and> (\<exists>row. findByReferenceId (tables w') (r_payment_reference_id r) = Some row
              \<and> payments (tables w') = payments (tables w) @ [row]
              \<and> p_payment_reference_id row = r_payment_reference_id r
              \<and> p_status row = r_status r
              \<and> p_payment_amount row = round_to_cents (r_payment_amount r)
              \<and> (\<forall>k. r_payment_amount r = of_int k \<longrightarrow> p_payment_amount row = k)
              \<and> p_payment_method row = to_column (r_payment_method r))"
proof -
  let ?row = "new_row ev pd (payments_auto_increment w)"
  note r = create_Inr(6) [OF assms]
  note p = posted [OF assms]
  have ref: "p_payment_reference_id ?row = r_payment_reference_id r"
    using r by (simp add: new_row_def)
  have "\<forall>y \<in> set (payments (tables w)). p_payment_reference_id y \<noteq> r_payment_reference_id r"
    using p(2) r by (auto simp: image_iff)
  then have "find (\<lambda>p. p_payment_reference_id p = r_payment_reference_id r)
               (payments (tables w) @ [?row]) = Some ?row"
    using ref by (intro find_snoc) auto
  then have f: "findByReferenceId (tables w') (r_payment_reference_id r) = Some ?row"
    using p(1) by (simp add: findByReferenceId_def)
  have "payments (tables w') = payments (tables w) @ [?row]" using p(1) by simp
  moreover have "p_status ?row = r_status r"
    "p_payment_amount ?row = round_to_cents (r_payment_amount r)"
    "p_payment_method ?row = to_column (r_payment_method r)"
    using r by (simp_all add: new_row_def)
  moreover have "\<forall>k. r_payment_amount r = of_int k \<longrightarrow> p_payment_amount ?row = k"
    using r by (simp add: new_row_def round_to_cents_of_int)
  ultimately show ?thesis using r f ref by simp
qed

text \<open>
  A posting of \<^verbatim>\<open>100.005\<close> returns that amount, and the row read back by its reference
  holds \<^verbatim>\<open>100.01\<close>.
\<close>
theorem half_cent_read_back:
  "r_payment_amount (projr (fst
      (create (sample_env 1700000000123 ''9b2e4f10-aaaa-4bbb-8ccc-0123456789ab'' (\<lambda>s. False))
         (sample_data (20001 / 2)) sample_world))) = 20001 / 2
   \<and> map_option p_payment_amount (findByReferenceId
        (tables (snd
          (create (sample_env 1700000000123 ''9b2e4f10-aaaa-4bbb-8ccc-0123456789ab'' (\<lambda>s. False))
             (sample_data (20001 / 2)) sample_world)))
        ''PAY-1700000000123-9b2e4f10'') = Some 10001
   \<and> (of_int 10001 :: rat) \<noteq> 20001 / 2"
  by (simp add: half_cent_posting findByReferenceId_def)

theorem read_after_write_witness:
  "findByReferenceId
     \<lparr>customers = [rahul\<lparr>c_outstanding_balance := Some 14499950\<rparr>, priya],
      payments =
        [\<lparr>p_id = 1, p_payment_reference_id = ''PAY-1700000000123-9b2e4f10'',
          p_customer_id = 1, p_account_number = ''ACC001'', p_payment_date = 1700000000,
          p_payment_amount = 500050, p_status = SUCCESS, p_payment_method = Some UPI,
          p_transaction_id = None, p_remarks = None\<rparr>],
      payment_schedule =
        [installment 1 2,
         (installment 2 1)\<lparr>s_paid_amount := Some 500050, s_status := PAID\<rparr>,
         installment 3 1]\<rparr>
     ''PAY-1700000000123-9b2e4f10''
   = Some \<lparr>p_id = 1, p_payment_reference_id = ''PAY-1700000000123-9b2e4f10'',
          p_customer_id = 1, p_account_number = ''ACC001'', p_payment_date = 1700000000,
          p_payment_amount = 500050, p_status = SUCCESS, p_payment_method = Some UPI,
          p_transaction_id = None, p_remarks = None\<rparr>"
  using read_after_write [OF sample_posting]
  by (simp add: sample_world_def sample_db_def sample_data_def to_column_def or_default_def)






text \<open>An amount in whole cents is added as it is.\<close>
lemma mark_paid_whole:
  "mark_paid (of_int k) s
     = s\<lparr>s_paid_amount := map_option (\<lambda>p. p + k) (s_paid_amount s), s_status := PAID\<rparr>"
  by (cases "s_paid_amount s") (simp_all add: mark_paid_def round_to_cents_of_int flip: of_int_add)




lemma create_calls: "calls (snd (create ev pd w)) = calls w @ [CallCreate]"
proof (cases "create ev pd w")
  case (Pair res w')
  then show ?thesis
    using create_Inl(2) [of ev pd w _ w'] create_Inr(3) [of ev pd w _ w'] by (cases res) auto
qed

text \<open>
  Claim C5 (validation before the atomic core). \<^verbatim>\<open>processPayment\<close> answers a request
  whose account number resolves to no customer with the error of status 404, and a
  request for an existing customer whose amount is not positive, or is larger than the
  customer's outstanding balance, with an error of status 400. In all three cases the
  world afterwards is the one before with the call of \<^verbatim>\<open>processPayment\<close> logged and
  nothing else: \<^verbatim>\<open>Payment.create\<close> was not called, the tables are untouched. A request
  that passes the three checks does reach \<^verbatim>\<open>Payment.create\<close>.
\<close>
theorem processPayment_validates:
  "(Customer_findByAccountNumber (tables w) (rq_account_number rq) = None \<longrightarrow>
      processPayment ev rq w
        = (Inl (StatusError 404 ''Customer not found''), w\<lparr>calls := calls w @ [CallProcessPayment]\<rparr>))
   \<and> (\<forall>c. Customer_findByAccountNumber (tables w) (rq_account_number rq) = Some c
          \<and> (rq_payment_amount rq \<le> 0
             \<or> (\<exists>b. c_outstanding_balance c = Some b \<and> of_int b < rq_payment_amount rq)) \<longrightarrow>
        (\<exists>msg. processPayment ev rq w
                 = (Inl (StatusError 400 msg), w\<lparr>calls := calls w @ [CallProcessPayment]\<rparr>)))
   \<and> (\<forall>c. Customer_findByAccountNumber (tables w) (rq_account_number rq) = Some c
          \<and> 0 < rq_payment_amount rq
          \<and> \<not> exceeds (rq_payment_amount rq) (c_outstanding_balance c) \<longrightarrow>
        calls (snd (processPayment ev rq w)) = calls w @ [CallProcessPayment, CallCreate])"
proof (intro conjI allI impI)
  assume "Customer_findByAccountNumber (tables w) (rq_account_number rq) = None"
  then show "processPayment ev rq w
        = (Inl (StatusError 404 ''Customer not found''), w\<lparr>calls := calls w @ [CallProcessPayment]\<rparr>)"
    by (simp add: processPayment_def Let_def)
next
  fix c :: customer
  assume "Customer_findByAccountNumber (tables w) (rq_account_number rq) = Some c
          \<and> (rq_payment_amount rq \<le> 0
             \<or> (\<exists>b. c_outstanding_balance c = Some b \<and> of_int b < rq_payment_amount rq))"
  then show "\<exists>msg. processPayment ev rq w
                 = (Inl (StatusError 400 msg), w\<lparr>calls := calls w @ [CallProcessPayment]\<rparr>)"
    by (auto simp: processPayment_def Let_def exceeds_def)
next
  fix c :: customer
  let ?w = "w\<lparr>calls := calls w @ [CallProcessPayment]\<rparr>"
  let ?pd = "\<lparr>pd_customer_id = c_id c,
               pd_account_number = rq_account_number rq,
               pd_payment_amount = rq_payment_amount rq,
               pd_payment_method = or_else (rq_payment_method rq) UPI,
               pd_transaction_id = rq_transaction_id rq,
               pd_remarks = rq_remarks rq\<rparr>"
  assume a: "Customer_findByAccountNumber (tables w) (rq_account_number rq) = Some c
          \<and> 0 < rq_payment_amount rq
          \<and> \<not> exceeds (rq_payment_amount rq) (c_outstanding_balance c)"
  then have "snd (processPayment ev rq w) = snd (create ev ?pd ?w)"
    by (simp add: processPayment_def Let_def split: prod.splits sum.splits option.splits)
  then show "calls (snd (processPayment ev rq w)) = calls w @ [CallProcessPayment, CallCreate]"
    by (simp add: create_calls)
qed

lemmas run_service =
  processPayment_def Customer_findByAccountNumber_def Customer_findById_def exceeds_def or_else_def

theorem processPayment_validates_witness:
  "processPayment (sample_env 1700000000123 ''9b2e4f10-aaaa-4bbb-8ccc-0123456789ab'' (\<lambda>s. False))
     \<lparr>rq_account_number = ''ACC999'', rq_payment_amount = 500000, rq_payment_method = Undefined,
      rq_transaction_id = Undefined, rq_remarks = Undefined\<rparr> sample_world
     = (Inl (StatusError 404 ''Customer not found''), sample_world\<lparr>calls := [CallProcessPayment]\<rparr>)
   \<and> processPayment (sample_env 1700000000123 ''9b2e4f10-aaaa-4bbb-8ccc-0123456789ab'' (\<lambda>s. False))
     \<lparr>rq_account_number = ''ACC001'', rq_payment_amount = 0, rq_payment_method = Undefined,
      rq_transaction_id = Undefined, rq_remarks = Undefined\<rparr> sample_world
     = (Inl (StatusError 400 ''Payment amount must be greater than 0''),
        sample_world\<lparr>calls := [CallProcessPayment]\<rparr>)
   \<and> processPayment (sample_env 1700000000123 ''9b2e4f10-aaaa-4bbb-8ccc-0123456789ab'' (\<lambda>s. False))
     \<lparr>rq_account_number = ''ACC001'', rq_payment_amount = 15000001, rq_payment_method = Undefined,
      rq_transaction_id = Undefined, rq_remarks = Undefined\<rparr> sample_world
     = (Inl (StatusError 400 ''Payment amount exceeds outstanding balance''),
        sample_world\<lparr>calls := [CallProcessPayment]\<rparr>)
   \<and> calls (snd (processPayment
        (sample_env 1700000000123 ''9b2e4f10-aaaa-4bbb-8ccc-0123456789ab'' (\<lambda>s. False))
        \<lparr>rq_account_number = ''ACC001'', rq_payment_amount = 15000000, rq_payment_method = Undefined,
         rq_transaction_id = Undefined, rq_remarks = Undefined\<rparr> sample_world))
     = [CallProcessPayment, CallCreate]"
proof -
  let ?ev = "sample_env 1700000000123 ''9b2e4f10-aaaa-4bbb-8ccc-0123456789ab'' (\<lambda>s. False)"
  let ?rq = "\<lambda>acc amount. \<lparr>rq_account_number = acc, rq_payment_amount = amount,
      rq_payment_method = Undefined, rq_transaction_id = Undefined, rq_remarks = Undefined\<rparr>"
  have found: "Customer_findByAccountNumber (tables sample_world) ''ACC001'' = Some rahul"
    and missing: "Customer_findByAccountNumber (tables sample_world) ''ACC999'' = None"
    and bal: "c_outstanding_balance rahul = Some 15000000"
    by (simp_all add: Customer_findByAccountNumber_def sample_world_def sample_db_def rahul_def priya_def)
  have 1: "processPayment ?ev (?rq ''ACC999'' 500000) sample_world
     = (Inl (StatusError 404 ''Customer not found''), sample_world\<lparr>calls := [CallProcessPayment]\<rparr>)"
    using processPayment_validates [of sample_world "?rq ''ACC999'' 500000" ?ev] missing
    by (simp add: sample_world_def)
  have 2: "processPayment ?ev (?rq ''ACC001'' 0) sample_world
     = (Inl (StatusError 400 ''Payment amount must be greater than 0''),
        sample_world\<lparr>calls := [CallProcessPayment]\<rparr>)"
    using processPayment_validates [of sample_world "?rq ''ACC001'' 0" ?ev] found
    by (auto simp: sample_world_def processPayment_def)
  have 3: "processPayment ?ev (?rq ''ACC001'' 15000001) sample_world
     = (Inl (StatusError 400 ''Payment amount exceeds outstanding balance''),
        sample_world\<lparr>calls := [CallProcessPayment]\<rparr>)"
    using processPayment_validates [of sample_world "?rq ''ACC001'' 15000001" ?ev] found bal
    by (auto simp: sample_world_def processPayment_def exceeds_def)
  have 4: "calls (snd (processPayment ?ev (?rq ''ACC001'' 15000000) sample_world))
     = [CallProcessPayment, CallCreate]"
    using processPayment_validates [of sample_world "?rq ''ACC001'' 15000000" ?ev] found bal
    by (simp add: exceeds_def sample_world_def)
  from 1 2 3 4 show ?thesis by simp
qed

lemma is_space_blank: "is_space CHR '' ''" and not_space_x: "\<not> is_space CHR ''x''"
  by (simp_all add: is_space_def)

lemma trim_padded: "\<not> is_space c \<Longrightarrow> trim (c # replicate n CHR '' '') = [c]"
proof -
  assume c: "\<not> is_space c"
  have "dropWhile is_space (replicate n CHR '' '' @ [c]) = [c]"
    using c by (induction n) (simp_all add: is_space_blank)
  moreover have "rev (c # replicate n CHR '' '') = replicate n CHR '' '' @ [c]" by simp
  ultimately show ?thesis using c by (simp add: trim_def)
qed

text \<open>
  Claim C10, as amended (minimum amount at the public interface). The middleware of
  \<^verbatim>\<open>POST /api/payments\<close> ends the request with the 400 response \<^verbatim>\<open>Validation Error\<close>,
  whatever the handler behind it is and without running it, when the amount is not a
  floating-point number, when it is below 0.01, and when the remarks are longer than 500
  characters after the whitespace around them has been trimmed.
\<close>
theorem validation_rejects:
  "(b_payment_amount b = NotFloat
      \<or> (\<exists>q. b_payment_amount b = Float q \<and> q < 1 / 100)
      \<or> (\<exists>s. b_remarks b = Val s \<and> 500 < length (trim s))) \<longrightarrow>
   (\<exists>errs. errs \<noteq> []
      \<and> post_payments handler b w
          = (\<lparr>rs_status = 400, rs_success = False, rs_message = ''Validation Error'',
              rs_errors = errs\<rparr>, w))"
proof
  assume a: "b_payment_amount b = NotFloat
      \<or> (\<exists>q. b_payment_amount b = Float q \<and> q < 1 / 100)
      \<or> (\<exists>s. b_remarks b = Val s \<and> 500 < length (trim s))"
  have "validationResult b \<noteq> []"
  proof -
    from a consider "payment_amount_errors b \<noteq> []" | "remarks_errors b \<noteq> []"
      by (auto simp: payment_amount_errors_def isFloat_min_def remarks_errors_def to_string_def)
    then show ?thesis by cases (simp_all add: validationResult_def)
  qed
  then show "\<exists>errs. errs \<noteq> []
      \<and> post_payments handler b w
          = (\<lparr>rs_status = 400, rs_success = False, rs_message = ''Validation Error'',
              rs_errors = errs\<rparr>, w)"
    by (simp add: post_payments_def handleValidationErrors_def)
qed

lemmas run_validation =
  post_payments_def handleValidationErrors_def validationResult_def account_number_errors_def
  payment_amount_errors_def payment_method_errors_def remarks_errors_def isFloat_min_def
  sanitized_def trimmed_def to_string_def

theorem validation_rejects_witness:
  "post_payments counting_handler
     \<lparr>b_account_number = Val ''ACC001'', b_payment_amount = Float (5 / 1000),
      b_payment_method = Undefined, b_transaction_id = Undefined, b_remarks = Undefined\<rparr> 0
   = (\<lparr>rs_status = 400, rs_success = False, rs_message = ''Validation Error'',
       rs_errors = [\<lparr>ve_field = ''payment_amount'',
                     ve_message = ''Payment amount must be a valid number greater than 0''\<rparr>]\<rparr>, 0)"
  using validation_rejects [of "\<lparr>b_account_number = Val ''ACC001'', b_payment_amount = Float (5 / 1000),
      b_payment_method = Undefined, b_transaction_id = Undefined, b_remarks = Undefined\<rparr>"
      counting_handler 0]
  by (simp add: run_validation trim_def is_space_def Let_def)

text \<open>
  Remarks of 501 characters are not rejected: all but the first are spaces, the chain
  trims them before it measures, and the handler runs.
\<close>
theorem long_remarks_accepted:
  "length padded_remarks = 501
   \<and> handleValidationErrors padded_body
       = Inr (padded_body\<lparr>b_remarks := Val ''x''\<rparr>)
   \<and> post_payments counting_handler padded_body 0 = (created, 1)"
proof -
  have t: "trim padded_remarks = ''x''"
    unfolding padded_remarks_def by (rule trim_padded) (rule not_space_x)
  have a: "trim ''ACC001'' = ''ACC001''" by (simp add: trim_def is_space_def)
  have v: "validationResult padded_body = []"
    by (simp add: validationResult_def account_number_errors_def payment_amount_errors_def
        payment_method_errors_def remarks_errors_def isFloat_min_def to_string_def
        padded_body_def t a Let_def)
  have s: "sanitized padded_body = padded_body\<lparr>b_remarks := Val ''x''\<rparr>"
    by (simp add: sanitized_def trimmed_def to_string_def padded_body_def t a)
  have h: "handleValidationErrors padded_body = Inr (padded_body\<lparr>b_remarks := Val ''x''\<rparr>)"
    by (simp add: handleValidationErrors_def v s)
  have "length padded_remarks = 501" by (simp add: padded_remarks_def)
  moreover have "post_payments counting_handler padded_body 0 = (created, 1)"
    by (simp add: post_payments_def h counting_handler_def)
  ultimately show ?thesis using h by simp
qed

lemma digit_value_digit_char: "d < 10 \<Longrightarrow> digit_value (digit_char d) = Some d"
proof -
  assume "d < 10"
  then consider "d = 0" | "d = 1" | "d = 2" | "d = 3" | "d = 4" | "d = 5" | "d = 6" | "d = 7"
    | "d = 8" | "d = 9" by atomize_elim arith
  then show ?thesis by cases (simp_all add: digit_value_def digit_char_def)
qed

lemma digit_char_not_hyphen: "d < 10 \<Longrightarrow> digit_char d \<noteq> CHR ''-''"
proof -
  assume "d < 10"
  then consider "d = 0" | "d = 1" | "d = 2" | "d = 3" | "d = 4" | "d = 5" | "d = 6" | "d = 7"
    | "d = 8" | "d = 9" by atomize_elim arith
  then show ?thesis by cases (simp_all add: digit_char_def)
qed

lemma parse_digits_append:
  "parse_digits acc (xs @ ys) =
     (case parse_digits acc xs of None \<Rightarrow> None | Some a \<Rightarrow> parse_digits a ys)"
  by (induction xs arbitrary: acc) (auto split: option.splits)

lemma parse_digits_dec: "parse_digits 0 (dec n) = Some n"
proof (induction n rule: dec.induct)
  case (1 n)
  show ?case
  proof (cases "n < 10")
    case True
    then show ?thesis by (simp add: dec_digit digit_value_digit_char)
  next
    case False
    then have "parse_digits 0 (dec (n div 10)) = Some (n div 10)" using "1" by simp
    with False show ?thesis
      by (simp add: dec_more parse_digits_append digit_value_digit_char)
  qed
qed

lemma dec_inject: "dec a = dec b \<Longrightarrow> a = b"
  by (metis parse_digits_dec option.inject)

lemma dec_no_hyphen: "CHR ''-'' \<notin> set (dec n)"
proof (induction n rule: dec.induct)
  case (1 n)
  show ?case
  proof (cases "n < 10")
    case True
    then show ?thesis using digit_char_not_hyphen [of n] by (auto simp: dec_digit)
  next
    case False
    then show ?thesis using "1" digit_char_not_hyphen [of "n mod 10"]
      by (auto simp: dec_more)
  qed
qed

lemma split_at_hyphen:
  assumes "CHR ''-'' \<notin> set xs" "CHR ''-'' \<notin> set ys"
    and "xs @ CHR ''-'' # s = ys @ CHR ''-'' # t"
  shows "xs = ys \<and> s = t"
proof -
  have "takeWhile (\<lambda>c. c \<noteq> CHR ''-'') (xs @ CHR ''-'' # s) = xs"
    using assms(1) by (induction xs) auto
  moreover have "takeWhile (\<lambda>c. c \<noteq> CHR ''-'') (ys @ CHR ''-'' # t) = ys"
    using assms(2) by (induction ys) auto
  ultimately have "xs = ys" using assms(3) by simp
  with assms(3) show ?thesis by simp
qed

lemma payment_reference_eq_iff:
  "payment_reference t1 u1 = payment_reference t2 u2 \<longleftrightarrow> t1 = t2 \<and> take 8 u1 = take 8 u2"
proof
  assume "payment_reference t1 u1 = payment_reference t2 u2"
  then have "dec t1 @ CHR ''-'' # take 8 u1 = dec t2 @ CHR ''-'' # take 8 u2"
    by (simp add: payment_reference_def)
  from split_at_hyphen [OF dec_no_hyphen dec_no_hyphen this]
  show "t1 = t2 \<and> take 8 u1 = take 8 u2" by (auto dest: dec_inject)
next
  assume "t1 = t2 \<and> take 8 u1 = take 8 u2"
  then show "payment_reference t1 u1 = payment_reference t2 u2"
    by (simp add: payment_reference_def)
qed

lemma uuid_prefix:
  assumes "is_uuid u"
  shows "length (take 8 u) = 8" and "list_all is_hex (take 8 u)"
proof -
  from assms have l: "length u = 36"
    by (auto simp: is_uuid_def uuid_template_def dest: list_all2_lengthD)
  then show "length (take 8 u) = 8" by simp
  have "list_all2 (\<lambda>c t. if t = CHR ''-'' then c = CHR ''-'' else is_hex c)
          (take 8 u) (take 8 uuid_template)"
    using assms unfolding is_uuid_def by (rule list_all2_takeI)
  then have "list_all2 (\<lambda>c t. if t = CHR ''-'' then c = CHR ''-'' else is_hex c)
          (take 8 u) (replicate 8 CHR ''x'')"
    by (simp add: uuid_template_def numeral_eq_Suc)
  then show "list_all is_hex (take 8 u)"
    by (auto simp: list_all2_conv_all_nth list_all_length)
qed

text \<open>
  Claim C4, as amended (payment reference generation). A reference is \<^verbatim>\<open>PAY-\<close>, the
  decimal digits of the millisecond clock, a hyphen and the first eight characters of the
  UUID text, which are eight hexadecimal digits. Two generated references are equal
  exactly when the two clock readings are equal and the two UUIDs agree on those eight
  characters. Two successive postings that both succeed carry distinct references: the
  unique index of the table refuses the second one otherwise.
\<close>
theorem reference_generation:
  "(payment_reference t1 u1 = payment_reference t2 u2 \<longleftrightarrow> t1 = t2 \<and> take 8 u1 = take 8 u2)
   \<and> (is_uuid u \<longrightarrow>
        payment_reference t u = ''PAY-'' @ dec t @ ''-'' @ take 8 u
        \<and> length (take 8 u) = 8 \<and> list_all is_hex (take 8 u))
   \<and> (create ev1 pd1 w = (Inr r1, w1) \<and> create ev2 pd2 w1 = (Inr r2, w2) \<longrightarrow>
        r_payment_reference_id r1 = payment_reference (e_now ev1) (e_uuid ev1)
        \<and> r_payment_reference_id r2 = payment_reference (e_now ev2) (e_uuid ev2)
        \<and> r_payment_reference_id r1 \<noteq> r_payment_reference_id r2)"
proof (intro conjI impI)
  show "payment_reference t1 u1 = payment_reference t2 u2 \<longleftrightarrow> t1 = t2 \<and> take 8 u1 = take 8 u2"
    by (rule payment_reference_eq_iff)
next
  assume "is_uuid u"
  from uuid_prefix [OF this]
  show "payment_reference t u = ''PAY-'' @ dec t @ ''-'' @ take 8 u" "length (take 8 u) = 8"
    "list_all is_hex (take 8 u)"
    by (simp_all add: payment_reference_def)
next
  assume a: "create ev1 pd1 w = (Inr r1, w1) \<and> create ev2 pd2 w1 = (Inr r2, w2)"
  then have c1: "create ev1 pd1 w = (Inr r1, w1)" and c2: "create ev2 pd2 w1 = (Inr r2, w2)"
    by simp_all
  show r1: "r_payment_reference_id r1 = payment_reference (e_now ev1) (e_uuid ev1)"
    using create_Inr(6) [OF c1] by simp
  show r2: "r_payment_reference_id r2 = payment_reference (e_now ev2) (e_uuid ev2)"
    using create_Inr(6) [OF c2] by simp
  have "payment_reference (e_now ev1) (e_uuid ev1)
          \<in> set (map p_payment_reference_id (payments (tables w1)))"
    using posted(1) [OF c1] by (simp add: new_row_def)
  with posted(2) [OF c2] r1 r2
  show "r_payment_reference_id r1 \<noteq> r_payment_reference_id r2" by auto
qed

lemma second_posting:
  "create (sample_env 1700000000124 ''9b2e4f10-aaaa-4bbb-8ccc-0123456789ab'' (\<lambda>s. False))
     (sample_data 500050)
     \<lparr>tables =
        \<lparr>customers = [rahul\<lparr>c_outstanding_balance := Some 14499950\<rparr>, priya],
         payments =
           [\<lparr>p_id = 1, p_payment_reference_id = ''PAY-1700000000123-9b2e4f10'',
             p_customer_id = 1, p_account_number = ''ACC001'', p_payment_date = 1700000000,
             p_payment_amount = 500050, p_status = SUCCESS, p_payment_method = Some UPI,
             p_transaction_id = None, p_remarks = None\<rparr>],
         payment_schedule =
           [installment 1 2,
            (installment 2 1)\<lparr>s_paid_amount := Some 500050, s_status := PAID\<rparr>,
            installment 3 1]\<rparr>,
      payments_auto_increment = 2, calls = [CallCreate], left_open = []\<rparr>
   = (Inr \<lparr>r_id = 2, r_payment_reference_id = ''PAY-1700000000124-9b2e4f10'',
           r_payment_amount = 500050, r_payment_method = Val UPI,
           r_account_number = ''ACC001'', r_status = SUCCESS, r_payment_date = 1700000000124\<rparr>,
      \<lparr>tables =
        \<lparr>customers = [rahul\<lparr>c_outstanding_balance := Some 13999900\<rparr>, priya],
         payments =
           [\<lparr>p_id = 1, p_payment_reference_id = ''PAY-1700000000123-9b2e4f10'',
             p_customer_id = 1, p_account_number = ''ACC001'', p_payment_date = 1700000000,
             p_payment_amount = 500050, p_status = SUCCESS, p_payment_method = Some UPI,
             p_transaction_id = None, p_remarks = None\<rparr>,
            \<lparr>p_id = 2, p_payment_reference_id = ''PAY-1700000000124-9b2e4f10'',
             p_customer_id = 1, p_account_number = ''ACC001'', p_payment_date = 1700000000,
             p_payment_amount = 500050, p_status = SUCCESS, p_payment_method = Some UPI,
             p_transaction_id = None, p_remarks = None\<rparr>],
         payment_schedule =
           [installment 1 2,
            (installment 2 1)\<lparr>s_paid_amount := Some 500050, s_status := PAID\<rparr>,
            (installment 3 1)\<lparr>s_paid_amount := Some 500050, s_status := PAID\<rparr>]\<rparr>,
      payments_auto_increment = 3, calls = [CallCreate, CallCreate], left_open = []\<rparr>)"
  by (simp add: run_sample)

theorem reference_generation_witness:
  "is_uuid ''9b2e4f10-aaaa-4bbb-8ccc-0123456789ab''
   \<and> payment_reference 1700000000123 ''9b2e4f10-aaaa-4bbb-8ccc-0123456789ab''
       = ''PAY-1700000000123-9b2e4f10''
   \<and> payment_reference 1700000000123 ''9b2e4f10-aaaa-4bbb-8ccc-0123456789ab''
       \<noteq> payment_reference 1700000000124 ''9b2e4f10-aaaa-4bbb-8ccc-0123456789ab''
   \<and> r_payment_reference_id
        (\<lparr>r_id = 1, r_payment_reference_id = ''PAY-1700000000123-9b2e4f10'',
          r_payment_amount = 500050, r_payment_method = Val UPI,
          r_account_number = ''ACC001'', r_status = SUCCESS, r_payment_date = 1700000000123\<rparr>)
     \<noteq> r_payment_reference_id
        (\<lparr>r_id = 2, r_payment_reference_id = ''PAY-1700000000124-9b2e4f10'',
          r_payment_amount = 500050, r_payment_method = Val UPI,
          r_account_number = ''ACC001'', r_status = SUCCESS, r_payment_date = 1700000000124\<rparr>)"
proof -
  have u: "is_uuid ''9b2e4f10-aaaa-4bbb-8ccc-0123456789ab''"
    by (simp add: is_uuid_def uuid_template_def is_hex_def)
  have form: "payment_reference 1700000000123 ''9b2e4f10-aaaa-4bbb-8ccc-0123456789ab''
       = ''PAY-1700000000123-9b2e4f10''
   \<and> payment_reference 1700000000123 ''9b2e4f10-aaaa-4bbb-8ccc-0123456789ab''
       \<noteq> payment_reference 1700000000124 ''9b2e4f10-aaaa-4bbb-8ccc-0123456789ab''"
    using u reference_generation [of 1700000000123 "''9b2e4f10-aaaa-4bbb-8ccc-0123456789ab''"
      1700000000124 "''9b2e4f10-aaaa-4bbb-8ccc-0123456789ab''"
      "''9b2e4f10-aaaa-4bbb-8ccc-0123456789ab''" 1700000000123]
    by (simp add: dec_eval payment_reference_def)
  have pair: "r_payment_reference_id
        (\<lparr>r_id = 1, r_payment_reference_id = ''PAY-1700000000123-9b2e4f10'',
          r_payment_amount = 500050, r_payment_method = Val UPI,
          r_account_number = ''ACC001'', r_status = SUCCESS, r_payment_date = 1700000000123\<rparr>)
     \<noteq> r_payment_reference_id
        (\<lparr>r_id = 2, r_payment_reference_id = ''PAY-1700000000124-9b2e4f10'',
          r_payment_amount = 500050, r_payment_method = Val UPI,
          r_account_number = ''ACC001'', r_status = SUCCESS, r_payment_date = 1700000000124\<rparr>)"
    using reference_generation [THEN conjunct2, THEN conjunct2, THEN mp,
        OF conjI [OF sample_posting second_posting]]
    by blast
  from u form pair show ?thesis by blast
qed

text \<open>
  Two postings in the same millisecond whose UUIDs differ but start with the same eight
  digits generate the same reference; the second posting then fails on the unique index.
\<close>
theorem same_millisecond_same_prefix:
  "is_uuid ''9b2e4f10-aaaa-4bbb-8ccc-0123456789ab''
   \<and> is_uuid ''9b2e4f10-dddd-4eee-9fff-ba9876543210''
   \<and> ''9b2e4f10-aaaa-4bbb-8ccc-0123456789ab'' \<noteq> ''9b2e4f10-dddd-4eee-9fff-ba9876543210''
   \<and> payment_reference 1700000000123 ''9b2e4f10-aaaa-4bbb-8ccc-0123456789ab''
       = payment_reference 1700000000123 ''9b2e4f10-dddd-4eee-9fff-ba9876543210''
   \<and> fst (create (sample_env 1700000000123 ''9b2e4f10-dddd-4eee-9fff-ba9876543210'' (\<lambda>s. False))
        (sample_data 500050)
        (snd (create (sample_env 1700000000123 ''9b2e4f10-aaaa-4bbb-8ccc-0123456789ab'' (\<lambda>s. False))
          (sample_data 500050) sample_world)))
       = Inl (ErrorCreatingPayment DuplicateEntry)"
  by (simp add: sample_posting is_uuid_def uuid_template_def is_hex_def run_sample)

lemma sanitize_cases:
  "sanitize dflt (JNumber (Finite q)) = max 0 \<lfloor>q\<rfloor>"
  "sanitize dflt (JNumber NaN) = dflt"
  "sanitize dflt (JNumber PosInfinity) = dflt"
  "sanitize dflt (JNumber NegInfinity) = dflt"
  "sanitize dflt JNull = dflt"
  "sanitize dflt (JBoolean b) = dflt"
  "sanitize dflt (JString s) = dflt"
  by (simp_all add: sanitize_def)


lemmas run_paging =
  safeLimit_def safeOffset_def sanitize_def param_default_def paging_clause_def text_eval
  unsigned_literal_def digit_value_def paged_def rethrow_def

text \<open>
  Claim C9 at a large argument. The offset \<open>10\<^sup>2\<^sup>1\<close> is finite, non-negative and integral, so
  the sanitizer keeps it; the template prints it as \<^verbatim>\<open>1e+21\<close>, which is no integer
  literal, and the query of \<^verbatim>\<open>Customer.findAll\<close> and of \<^verbatim>\<open>Payment.findByAccountNumber\<close>
  is refused by the server as a syntax error.
\<close>
theorem huge_offset_is_not_a_literal:
  "safeLimit JUndefined = 50
   \<and> safeOffset (JNumber (Finite (10 ^ 21))) = 10 ^ 21
   \<and> paging_clause (safeLimit JUndefined) (safeOffset (JNumber (Finite (10 ^ 21))))
       = ''LIMIT 50 OFFSET 1e+21''
   \<and> Customer_findAll sample_db JUndefined (JNumber (Finite (10 ^ 21)))
       = Inl (ErrorFetchingCustomers SyntaxError)
   \<and> findByAccountNumber sample_db ''ACC001'' JUndefined (JNumber (Finite (10 ^ 21)))
       = Inl (ErrorFetchingPayments SyntaxError)"
  by (simp add: Customer_findAll_def findByAccountNumber_def run_paging dec_eval)



lemma set_order_by_desc: "set (order_by_desc key rows) = set rows"
  by (simp add: order_by_desc_def)



text \<open>
  The digits printed for a number below \<open>2\<^sup>5\<^sup>3\<close> are its own: every integer below
  \<open>2\<^sup>5\<^sup>3\<close> is a double, so no other integer reads back as it.
\<close>
lemma bit_length_le: "n < 2 ^ k \<Longrightarrow> bit_length n \<le> k"
proof (induction k arbitrary: n)
  case 0
  then show ?case by (simp add: bit_length_0)
next
  case (Suc k)
  show ?case
  proof (cases "n = 0")
    case True
    then show ?thesis by (simp add: bit_length_0)
  next
    case False
    from Suc.prems have "n div 2 < 2 ^ k" by simp
    from Suc.IH [OF this] False show ?thesis by (simp add: bit_length_pos)
  qed
qed

lemma bit_length_gt: "2 ^ k \<le> n \<Longrightarrow> k < bit_length n"
proof (induction k arbitrary: n)
  case 0
  then show ?case by (simp add: bit_length_pos)
next
  case (Suc k)
  from Suc.prems have "2 ^ k \<le> n div 2" by simp
  from Suc.IH [OF this] have "k < bit_length (n div 2)" .
  moreover from Suc.prems have "0 < n" by (cases "n = 0") simp_all
  ultimately show ?case by (simp add: bit_length_pos)
qed

lemma bit_length_power: "0 < n \<Longrightarrow> 2 ^ (bit_length n - 1) \<le> n"
proof (induction n rule: bit_length.induct)
  case (1 n)
  show ?case
  proof (cases "n div 2 = 0")
    case True
    with 1(2) show ?thesis by (simp add: bit_length_pos bit_length_0)
  next
    case False
    with 1 have ih: "2 ^ (bit_length (n div 2) - 1) \<le> n div 2" by simp
    from False have "0 < bit_length (n div 2)" by (simp add: bit_length_pos)
    then have "(2::nat) ^ bit_length (n div 2) = 2 * 2 ^ (bit_length (n div 2) - 1)"
      by (cases "bit_length (n div 2)") simp_all
    also have "\<dots> \<le> 2 * (n div 2)" using ih by simp
    also have "\<dots> \<le> n" by simp
    finally show ?thesis using 1(2) by (simp add: bit_length_pos)
  qed
qed

lemma to_double_small: "n < 2 ^ 53 \<Longrightarrow> to_double n = n"
  using bit_length_le [of n 53] by (simp add: to_double_def)

lemma to_double_large:
  assumes "2 ^ 53 \<le> n"
  shows "2 ^ 53 \<le> to_double n"
proof -
  define e where "e = bit_length n - 53"
  define u :: nat where "u = 2 ^ e"
  from bit_length_gt [OF assms] have b: "bit_length n - 1 = 52 + e" "0 < e"
    by (simp_all add: e_def)
  from assms have "0 < n" by (cases "n = 0") simp_all
  from bit_length_power [OF this] have "2 ^ (52 + e) \<le> n"
    by (simp only: b(1))
  then have "2 ^ 52 * u \<le> n"
    by (simp only: power_add u_def)
  then have "2 ^ 52 \<le> n div u"
    by (simp add: less_eq_div_iff_mult_less_eq u_def)
  then have m: "2 ^ 52 * u \<le> n div u * u" by (rule mult_le_mono1)
  from b(2) have "2 \<le> u"
    by (cases e) (simp_all add: u_def)
  then have t: "(2::nat) ^ 52 * 2 \<le> 2 ^ 52 * u" by (rule mult_le_mono2)
  have "(2::nat) ^ 53 = 2 ^ 52 * 2" by simp
  also note t
  also note m
  also have "n div u * u \<le> to_double n"
    by (simp add: to_double_def Let_def e_def u_def)
  finally show ?thesis .
qed

lemma shortest_from_small: "x < 2 ^ 53 \<Longrightarrow> shortest_from x j = x"
proof (induction x j rule: shortest_from.induct)
  case (1 x j)
  show ?case
  proof (cases "j = 0")
    case True
    then show ?thesis by (simp add: shortest_from.simps)
  next
    case False
    define below where "below = (x div 10 ^ j) * 10 ^ j"
    have le: "below \<le> x" by (simp add: below_def)
    from le 1(2) have "below < 2 ^ 53" by (rule le_less_trans)
    then have lo: "to_double below = below" by (rule to_double_small)
    have "x mod 10 ^ j < (10::nat) ^ j" by simp
    moreover have "below + x mod 10 ^ j = x" unfolding below_def by (rule div_mult_mod_eq)
    ultimately have "x < below + 10 ^ j" by linarith
    have hi: "to_double (below + 10 ^ j) \<noteq> x"
    proof (cases "below + 10 ^ j < 2 ^ 53")
      case True
      then have "to_double (below + 10 ^ j) = below + 10 ^ j" by (rule to_double_small)
      with \<open>x < below + 10 ^ j\<close> show ?thesis by simp
    next
      case False
      then have "2 ^ 53 \<le> to_double (below + 10 ^ j)" by (intro to_double_large) simp
      with 1(2) show ?thesis by simp
    qed
    show ?thesis
    proof (cases "below = x")
      case True
      with False lo hi show ?thesis
        by (subst shortest_from.simps) (simp add: Let_def below_def [symmetric])
    next
      case neq: False
      with False lo hi 1 show ?thesis
        by (subst shortest_from.simps) (simp add: Let_def below_def [symmetric])
    qed
  qed
qed

lemma shortest_decimal_small: "x < 2 ^ 53 \<Longrightarrow> shortest_decimal x = x"
  by (simp add: shortest_decimal_def shortest_from_small)















end
